theory Spec2Isabelle
  imports Main
begin

section \<open>The code-object interpretation micro-benchmark\<close>

text \<open>
  The benchmark script \<^verbatim>\<open>codeobject-interpretation.py\<close> reads the name of the running
  Python implementation, obtains one code object (on GraalPython by unmarshalling what
  \<^verbatim>\<open>__graalpython__.compile_cpyc\<close> returns, elsewhere by \<^verbatim>\<open>compile\<close> followed by
  \<^verbatim>\<open>dis.dis\<close>) and runs it in a loop.

  The builtins the script calls belong to the Python runtime, not to the script. They are
  the fields of a record \<open>host\<close>, so every theorem holds for whatever runtime supplies
  them. A builtin that can raise returns a sum, \<open>Inl\<close> carrying the exception.
\<close>

subsection \<open>Exceptions and the host runtime\<close>

datatype exn = CompileError | DeserializationError | ExecError string

text \<open>
  \<^item> \<open>implementation_name\<close> is \<^verbatim>\<open>sys.implementation.name\<close>;
  \<^item> \<open>compile\<close> is the builtin \<^verbatim>\<open>compile(source, filename, mode)\<close>;
  \<^item> \<open>dis\<close> is the listing that \<^verbatim>\<open>dis.dis(c)\<close> writes to standard output;
  \<^item> \<open>marshal_loads\<close> is \<^verbatim>\<open>marshal.loads\<close>;
  \<^item> \<open>compile_cpyc\<close> is \<^verbatim>\<open>__graalpython__.compile_cpyc(name, source)\<close>;
  \<^item> \<open>exec\<close> is the builtin \<^verbatim>\<open>exec(code)\<close>: it runs a code object on the
    interpreter's state and leaves a new state behind, also when it raises.

  The type \<open>'c\<close> is that of code objects, \<open>'b\<close> that of marshalled bytes and \<open>'s\<close> that
  of the interpreter's state.
\<close>

record ('c, 'b, 's) host =
  implementation_name :: string
  compile :: "string \<Rightarrow> string \<Rightarrow> string \<Rightarrow> exn + 'c"
  dis :: "'c \<Rightarrow> string"
  marshal_loads :: "'b \<Rightarrow> exn + 'c"
  compile_cpyc :: "string \<Rightarrow> string \<Rightarrow> exn + 'b"
  exec :: "'c \<Rightarrow> 's \<Rightarrow> (exn + unit) \<times> 's"

subsection \<open>Module level: runtime detection and code acquisition\<close>

text \<open>\<^verbatim>\<open>IS_GRAAL = sys.implementation.name == "graalpython"\<close>\<close>

definition IS_GRAAL :: "('c, 'b, 's) host \<Rightarrow> bool" where
  "IS_GRAAL h = (implementation_name h = ''graalpython'')"

text \<open>
  \<^verbatim>\<open>
  if IS_GRAAL:
      get_code = lambda n,s: marshal.loads(__graalpython__.compile_cpyc(n,s))
  else:
      def get_code(n,s):
          c = compile(s,n,"exec")
          import dis
          dis.dis(c)
          return c
  \<close>
  The only state \<open>get_code\<close> touches is standard output, a list of the texts written so
  far; it is passed in and returned, on the error branches too.
\<close>

definition get_code ::
  "('c, 'b, 's) host \<Rightarrow> string \<Rightarrow> string \<Rightarrow> string list \<Rightarrow> (exn + 'c) \<times> string list" where
  "get_code h n s out =
     (if IS_GRAAL h then
        (case compile_cpyc h n s of
           Inl e \<Rightarrow> (Inl e, out)
         | Inr b \<Rightarrow>
             (case marshal_loads h b of
                Inl e \<Rightarrow> (Inl e, out)
              | Inr c \<Rightarrow> (Inr c, out)))
      else
        (case compile h s n ''exec'' of
           Inl e \<Rightarrow> (Inl e, out)
         | Inr c \<Rightarrow> (Inr c, out @ [dis h c])))"

text \<open>The source text passed at module level, between the triple quotes.\<close>

definition bench_source :: string where
  "bench_source =
     ''\<newline>import sys\<newline># def foo():\<newline>#   pass\<newline>len(sys.__name__)\<newline>''"

text \<open>
  The state of the loaded module: the global \<open>CODE\<close>, standard output, the
  interpreter's state, and \<open>executed\<close>, the log of the code objects passed to
  \<^verbatim>\<open>exec\<close> so far, oldest first (a ghost field: it records the calls, nothing reads it).

  This is the loop as seen from the host: the script assigns \<open>CODE\<close> once, at module
  level, and what an executed code object does is the host's \<open>exec\<close> on the component
  \<open>interp\<close>. It describes code objects that leave the names of the module alone, as the
  benchmark's own does. The loop with every name resolved in the module's namespaces, where
  executed code can rebind them, is the subject of a later subsection; the two agree on
  the benchmark's code object (lemma \<open>loops_agree\<close>).
\<close>

record ('c, 's) state =
  CODE :: 'c
  stdout :: "string list"
  executed :: "'c list"
  interp :: 's

text \<open>
  \<^verbatim>\<open>CODE = get_code("bench.py", """...""")\<close>: loading the module either raises, with
  the output written so far, or yields the module's state.
\<close>

definition load ::
  "('c, 'b, 's) host \<Rightarrow> string list \<Rightarrow> 's \<Rightarrow> (exn \<times> string list) + ('c, 's) state" where
  "load h out s0 =
     (case get_code h ''bench.py'' bench_source out of
        (Inl e, out') \<Rightarrow> Inl (e, out')
      | (Inr c, out') \<Rightarrow> Inr \<lparr>CODE = c, stdout = out', executed = [], interp = s0\<rparr>)"

subsection \<open>The measurement loop\<close>

text \<open>
  \<^verbatim>\<open>range(num)\<close> for an integer \<open>num\<close>: the integers from 0 up to \<open>num - 1\<close>, none when
  \<open>num\<close> is zero or negative.
\<close>

definition range_py :: "int \<Rightarrow> int list" where
  "range_py num = [0..num - 1]"

text \<open>
  The loop body \<^verbatim>\<open>exec(CODE)\<close>: the global is read, the call is logged, and the host
  runs the code object on the interpreter's state.
\<close>

definition exec_CODE ::
  "('c, 'b, 's) host \<Rightarrow> ('c, 's) state \<Rightarrow> (exn + unit) \<times> ('c, 's) state" where
  "exec_CODE h w =
     (let c = CODE w;
          (r, s') = exec h c (interp w)
      in (r, w\<lparr>executed := executed w @ [c], interp := s'\<rparr>))"

text \<open>
  \<^verbatim>\<open>for i in ...: exec(CODE)\<close> over the values of the range: an exception raised by an
  iteration leaves the loop at once.
\<close>

fun for_exec ::
  "('c, 'b, 's) host \<Rightarrow> int list \<Rightarrow> ('c, 's) state \<Rightarrow> (exn + unit) \<times> ('c, 's) state" where
  "for_exec h [] w = (Inr (), w)"
| "for_exec h (i # is) w =
     (case exec_CODE h w of
        (Inl e, w') \<Rightarrow> (Inl e, w')
      | (Inr u, w') \<Rightarrow> for_exec h is w')"

text \<open>
  \<^verbatim>\<open>
  def measure(num):
      for i in range(num):
          exec(CODE)
  \<close>
\<close>

definition measure_py ::
  "('c, 'b, 's) host \<Rightarrow> int \<Rightarrow> ('c, 's) state \<Rightarrow> (exn + unit) \<times> ('c, 's) state" where
  "measure_py h num w = for_exec h (range_py num) w"

text \<open>
  \<^verbatim>\<open>
  def __benchmark__(num=5):
      measure(num)
  \<close>
  The argument is optional: \<open>None\<close> stands for a call without it.
\<close>

definition benchmark ::
  "('c, 'b, 's) host \<Rightarrow> int option \<Rightarrow> ('c, 's) state \<Rightarrow> (exn + unit) \<times> ('c, 's) state" where
  "benchmark h arg w = measure_py h (case arg of None \<Rightarrow> 5 | Some num \<Rightarrow> num) w"

text \<open>One run of the stored code on an interpreter state, as a state transformer.\<close>

definition run_once :: "('c, 'b, 's) host \<Rightarrow> 'c \<Rightarrow> 's \<Rightarrow> 's" where
  "run_once h c s = snd (exec h c s)"

text \<open>The host never raises when it executes the code object \<open>c\<close>.\<close>

definition never_raises :: "('c, 'b, 's) host \<Rightarrow> 'c \<Rightarrow> bool" where
  "never_raises h c = (\<forall>s. fst (exec h c s) = Inr ())"

subsection \<open>A small host for concrete runs\<close>

text \<open>
  A code object is the pair of its file name and source, marshalled bytes are a string,
  the interpreter's state counts the executions. The source \<^verbatim>\<open>def :\<close> does not compile,
  the empty blob does not unmarshal, and the source \<^verbatim>\<open>raise\<close> compiles to a code object
  that raises when run.
\<close>

definition toy_host :: "string \<Rightarrow> (string \<times> string, string, nat) host" where
  "toy_host name =
     \<lparr>implementation_name = name,
      compile = (\<lambda>s n m. if s = ''def :'' \<or> m \<noteq> ''exec'' then Inl CompileError else Inr (n, s)),
      dis = (\<lambda>c. ''Disassembly of '' @ fst c),
      marshal_loads = (\<lambda>b. if b = [] then Inl DeserializationError else Inr (''<blob>'', b)),
      compile_cpyc = (\<lambda>n s. if s = ''def :'' then Inl CompileError else Inr s),
      exec = (\<lambda>c k. if snd c = ''raise'' then (Inl (ExecError ''raised''), Suc k)
                     else (Inr (), Suc k))\<rparr>"

definition toy_state :: "string \<Rightarrow> (string \<times> string, nat) state" where
  "toy_state src = \<lparr>CODE = (''bench.py'', src), stdout = [], executed = [], interp = 0\<rparr>"

subsection \<open>The loop in the module's namespaces\<close>

text \<open>
  The loop above takes the host's \<open>exec\<close> as a function of the interpreter's state
  alone. In the interpreter, \<^verbatim>\<open>exec(CODE)\<close> is resolved and run in the namespaces of
  the calling frame: \<^verbatim>\<open>range\<close>, \<^verbatim>\<open>exec\<close> and \<^verbatim>\<open>CODE\<close> are looked up in the module's
  globals and then in the builtins each time they are used, and the executed code can
  bind any name there. This subsection models the loop at that level: names are looked
  up in dictionaries, and what runs a code object may change every dictionary.

  Python values, as far as the script and its code object handle them. A module is
  referred to by its name; its attributes are in the table of loaded modules.
\<close>

datatype 'c val =
    VInt int
  | VStr string
  | VBool bool
  | VNone
  | VCode 'c
  | VModule string
  | VBuiltin string
  | VFunction string
  | VRange int

type_synonym 'c dict = "string \<rightharpoonup> 'c val"

text \<open>
  What Python code can reach: the module's globals, the builtins, the loaded modules
  (\<^verbatim>\<open>sys.modules\<close>, with the attributes of each module) and the rest of the
  interpreter.
\<close>

record ('c, 's) space =
  globals :: "'c dict"
  builtins :: "'c dict"
  modules :: "string \<rightharpoonup> 'c dict"
  rest :: 's

text \<open>
  The interpreter: \<open>exec_in\<close> runs a code object with the local variables of the calling
  frame, in a space it may change at will. The other fields stand for everything this
  development does not spell out: calls of other callables or with other arguments,
  attributes found elsewhere than in a loaded module's dictionary, imports of modules
  that are not loaded yet.
\<close>

record ('c, 's) interpreter =
  exec_in :: "'c \<Rightarrow> 'c dict \<Rightarrow> ('c, 's) space \<Rightarrow> (exn + unit) \<times> ('c, 's) space"
  call_other ::
    "'c val \<Rightarrow> 'c val list \<Rightarrow> 'c dict \<Rightarrow> ('c, 's) space \<Rightarrow> (exn + 'c val) \<times> ('c, 's) space"
  attr_other :: "'c val \<Rightarrow> string \<Rightarrow> ('c, 's) space \<Rightarrow> exn + 'c val"
  import_other :: "string \<Rightarrow> ('c, 's) space \<Rightarrow> (exn + 'c val) \<times> ('c, 's) space"

text \<open>Name lookup in a function body: the globals, then the builtins.\<close>

definition load_global :: "string \<Rightarrow> ('c, 's) space \<Rightarrow> exn + 'c val" where
  "load_global x sp =
     (case globals sp x of
        Some v \<Rightarrow> Inr v
      | None \<Rightarrow>
          (case builtins sp x of
             Some v \<Rightarrow> Inr v
           | None \<Rightarrow> Inl (ExecError ''NameError'')))"

text \<open>Name lookup in executed module-level code: the locals first.\<close>

definition load_name :: "string \<Rightarrow> 'c dict \<Rightarrow> ('c, 's) space \<Rightarrow> exn + 'c val" where
  "load_name x lcl sp = (case lcl x of Some v \<Rightarrow> Inr v | None \<Rightarrow> load_global x sp)"

text \<open>\<^verbatim>\<open>import m\<close>: a module that is already loaded is returned as it is.\<close>

definition import_name ::
  "('c, 's) interpreter \<Rightarrow> string \<Rightarrow> ('c, 's) space \<Rightarrow> (exn + 'c val) \<times> ('c, 's) space" where
  "import_name h m sp =
     (case modules sp m of
        Some d \<Rightarrow> (Inr (VModule m), sp)
      | None \<Rightarrow> import_other h m sp)"

text \<open>Attribute access: an entry of a loaded module's dictionary is returned.\<close>

definition load_attr ::
  "('c, 's) interpreter \<Rightarrow> 'c val \<Rightarrow> string \<Rightarrow> ('c, 's) space \<Rightarrow> exn + 'c val" where
  "load_attr h v a sp =
     (case v of
        VModule m \<Rightarrow>
          (case modules sp m of
             Some d \<Rightarrow> (case d a of Some x \<Rightarrow> Inr x | None \<Rightarrow> attr_other h v a sp)
           | None \<Rightarrow> attr_other h v a sp)
      | _ \<Rightarrow> attr_other h v a sp)"

text \<open>
  A call. The builtins \<^verbatim>\<open>len\<close> of a string, \<^verbatim>\<open>range\<close> of an integer and \<^verbatim>\<open>exec\<close>
  of a code object are spelt out; \<^verbatim>\<open>exec\<close> runs the code object with the caller's
  locals and returns \<^verbatim>\<open>None\<close>. Numbers, strings, \<^verbatim>\<open>None\<close>, code objects, modules and
  range objects are not callable.
\<close>

definition call_value ::
  "('c, 's) interpreter \<Rightarrow> 'c val \<Rightarrow> 'c val list \<Rightarrow> 'c dict \<Rightarrow> ('c, 's) space \<Rightarrow>
   (exn + 'c val) \<times> ('c, 's) space" where
  "call_value h f args lcl sp =
     (case f of
        VBuiltin b \<Rightarrow>
          (case args of
             [VStr s] \<Rightarrow>
               if b = ''len'' then (Inr (VInt (int (length s))), sp)
               else call_other h f args lcl sp
           | [VInt n] \<Rightarrow>
               if b = ''range'' then (Inr (VRange n), sp)
               else call_other h f args lcl sp
           | [VCode c] \<Rightarrow>
               if b = ''exec'' then
                 (case exec_in h c lcl sp of
                    (Inl e, sp') \<Rightarrow> (Inl e, sp')
                  | (Inr u, sp') \<Rightarrow> (Inr VNone, sp'))
               else call_other h f args lcl sp
           | _ \<Rightarrow> call_other h f args lcl sp)
      | VFunction g \<Rightarrow> call_other h f args lcl sp
      | _ \<Rightarrow> (Inl (ExecError ''TypeError''), sp))"

text \<open>
  The values a \<^verbatim>\<open>for\<close> loop takes from an object: the integers of a range, the
  characters of a string; the other values here are not iterable.
\<close>

definition iter_items :: "'c val \<Rightarrow> exn + 'c val list" where
  "iter_items v =
     (case v of
        VRange n \<Rightarrow> Inr (map VInt [0..n - 1])
      | VStr s \<Rightarrow> Inr (map (\<lambda>c. VStr [c]) s)
      | _ \<Rightarrow> Inl (ExecError ''TypeError''))"

text \<open>
  The code of the benchmark's source, statement by statement, run with the locals
  \<open>lcl\<close> of the calling frame:
  \<^verbatim>\<open>
  import sys
  len(sys.__name__)
  \<close>
  \<^verbatim>\<open>import sys\<close> binds \<^verbatim>\<open>sys\<close> in the local namespace of the run; the call looks up
  \<^verbatim>\<open>len\<close> and \<^verbatim>\<open>sys\<close> there, then in the globals, then in the builtins, and its value
  is dropped.
\<close>

definition sample_run ::
  "('c, 's) interpreter \<Rightarrow> 'c dict \<Rightarrow> ('c, 's) space \<Rightarrow> (exn + unit) \<times> ('c, 's) space" where
  "sample_run h lcl sp =
     (case import_name h ''sys'' sp of
        (Inl e, sp1) \<Rightarrow> (Inl e, sp1)
      | (Inr m, sp1) \<Rightarrow>
          (let lcl1 = lcl(''sys'' \<mapsto> m) in
           case load_name ''len'' lcl1 sp1 of
             Inl e \<Rightarrow> (Inl e, sp1)
           | Inr f \<Rightarrow>
               (case load_name ''sys'' lcl1 sp1 of
                  Inl e \<Rightarrow> (Inl e, sp1)
                | Inr v \<Rightarrow>
                    (case load_attr h v ''__name__'' sp1 of
                       Inl e \<Rightarrow> (Inl e, sp1)
                     | Inr a \<Rightarrow>
                         (case call_value h f [a] lcl1 sp1 of
                            (Inl e, sp2) \<Rightarrow> (Inl e, sp2)
                          | (Inr r, sp2) \<Rightarrow> (Inr (), sp2))))))"

text \<open>
  The running module: its space, and \<open>trace\<close>, the log of the code objects that the
  loop has passed to the builtin \<^verbatim>\<open>exec\<close>, oldest first. The log is kept apart from the
  space: executed code cannot reach it.
\<close>

record ('c, 's) world =
  names :: "('c, 's) space"
  trace :: "'c list"

text \<open>
  The loop body \<^verbatim>\<open>exec(CODE)\<close> in a frame with the locals \<open>lcl\<close>: \<^verbatim>\<open>exec\<close> is looked
  up, then \<^verbatim>\<open>CODE\<close>, then the call is made. It is logged when it is a call of the builtin
  \<^verbatim>\<open>exec\<close> on a code object.
\<close>

definition exec_CODE_in ::
  "('c, 's) interpreter \<Rightarrow> 'c dict \<Rightarrow> ('c, 's) world \<Rightarrow> (exn + unit) \<times> ('c, 's) world" where
  "exec_CODE_in h lcl w =
     (case load_global ''exec'' (names w) of
        Inl e \<Rightarrow> (Inl e, w)
      | Inr f \<Rightarrow>
          (case load_global ''CODE'' (names w) of
             Inl e \<Rightarrow> (Inl e, w)
           | Inr v \<Rightarrow>
               (let logged = (case v of VCode c \<Rightarrow> if f = VBuiltin ''exec'' then [c] else []
                                       | _ \<Rightarrow> []);
                    (r, sp') = call_value h f [v] lcl (names w)
                in ((case r of Inl e \<Rightarrow> Inl e | Inr x \<Rightarrow> Inr ()),
                    \<lparr>names = sp', trace = trace w @ logged\<rparr>))))"

text \<open>
  The \<^verbatim>\<open>for\<close> loop of \<^verbatim>\<open>measure\<close> over the items of the iterable: each iteration
  binds \<^verbatim>\<open>i\<close> and runs the body in the frame's locals, \<^verbatim>\<open>num\<close> and \<^verbatim>\<open>i\<close>.
\<close>

fun for_in ::
  "('c, 's) interpreter \<Rightarrow> int \<Rightarrow> 'c val list \<Rightarrow> ('c, 's) world \<Rightarrow>
   (exn + unit) \<times> ('c, 's) world" where
  "for_in h num [] w = (Inr (), w)"
| "for_in h num (i # is) w =
     (case exec_CODE_in h [''num'' \<mapsto> VInt num, ''i'' \<mapsto> i] w of
        (Inl e, w') \<Rightarrow> (Inl e, w')
      | (Inr u, w') \<Rightarrow> for_in h num is w')"

text \<open>
  \<^verbatim>\<open>measure(num)\<close>: \<^verbatim>\<open>range\<close> is looked up and called once, before the first
  iteration.
\<close>

definition measure_in ::
  "('c, 's) interpreter \<Rightarrow> int \<Rightarrow> ('c, 's) world \<Rightarrow> (exn + unit) \<times> ('c, 's) world" where
  "measure_in h num w =
     (case load_global ''range'' (names w) of
        Inl e \<Rightarrow> (Inl e, w)
      | Inr f \<Rightarrow>
          (case call_value h f [VInt num] [''num'' \<mapsto> VInt num] (names w) of
             (Inl e, sp') \<Rightarrow> (Inl e, w\<lparr>names := sp'\<rparr>)
           | (Inr it, sp') \<Rightarrow>
               (case iter_items it of
                  Inl e \<Rightarrow> (Inl e, w\<lparr>names := sp'\<rparr>)
                | Inr items \<Rightarrow> for_in h num items (w\<lparr>names := sp'\<rparr>))))"

text \<open>
  \<^verbatim>\<open>__benchmark__(num=5)\<close>: \<^verbatim>\<open>measure\<close> is looked up; when it is still the script's
  function, that function runs.
\<close>

definition benchmark_in ::
  "('c, 's) interpreter \<Rightarrow> int option \<Rightarrow> ('c, 's) world \<Rightarrow> (exn + unit) \<times> ('c, 's) world" where
  "benchmark_in h arg w =
     (let num = (case arg of None \<Rightarrow> 5 | Some n \<Rightarrow> n) in
      case load_global ''measure'' (names w) of
        Inl e \<Rightarrow> (Inl e, w)
      | Inr f \<Rightarrow>
          if f = VFunction ''measure'' then measure_in h num w
          else
            (case call_value h f [VInt num] [''num'' \<mapsto> VInt num] (names w) of
               (Inl e, sp') \<Rightarrow> (Inl e, w\<lparr>names := sp'\<rparr>)
             | (Inr x, sp') \<Rightarrow> (Inr (), w\<lparr>names := sp'\<rparr>)))"

text \<open>
  The names the script binds at module level, in the order of its lines, on top of the
  dictionary \<open>g0\<close> the interpreter gives a fresh module.
\<close>

definition module_globals :: "'c dict \<Rightarrow> bool \<Rightarrow> 'c \<Rightarrow> 'c dict" where
  "module_globals g0 graal c =
     g0(''sys'' \<mapsto> VModule ''sys'',
        ''marshal'' \<mapsto> VModule ''marshal'',
        ''IS_GRAAL'' \<mapsto> VBool graal,
        ''get_code'' \<mapsto> VFunction ''get_code'',
        ''CODE'' \<mapsto> VCode c,
        ''measure'' \<mapsto> VFunction ''measure'',
        ''__benchmark__'' \<mapsto> VFunction ''__benchmark__'')"

text \<open>
  The space of the loaded module, with \<open>c\<close> the code object stored in \<^verbatim>\<open>CODE\<close>: the
  script's bindings are in the globals; the globals do not shadow \<^verbatim>\<open>range\<close>,
  \<^verbatim>\<open>exec\<close> and \<^verbatim>\<open>len\<close>, which the builtins bind to the builtin functions; the module
  \<^verbatim>\<open>sys\<close> is loaded and its \<^verbatim>\<open>__name__\<close> is a string.
\<close>

definition ready :: "'c \<Rightarrow> ('c, 's) space \<Rightarrow> bool" where
  "ready c sp \<longleftrightarrow>
     globals sp ''CODE'' = Some (VCode c) \<and>
     globals sp ''measure'' = Some (VFunction ''measure'') \<and>
     globals sp ''range'' = None \<and> globals sp ''exec'' = None \<and> globals sp ''len'' = None \<and>
     builtins sp ''range'' = Some (VBuiltin ''range'') \<and>
     builtins sp ''exec'' = Some (VBuiltin ''exec'') \<and>
     builtins sp ''len'' = Some (VBuiltin ''len'') \<and>
     (case modules sp ''sys'' of
        None \<Rightarrow> False
      | Some d \<Rightarrow> (case d ''__name__'' of Some (VStr s) \<Rightarrow> True | _ \<Rightarrow> False))"

text \<open>
  In the space \<open>sp\<close> the interpreter runs the code object \<open>c\<close> as the benchmark's source
  prescribes, in every frame of \<^verbatim>\<open>measure\<close> (the frames whose locals are \<^verbatim>\<open>num\<close> and
  \<^verbatim>\<open>i\<close>).
\<close>

definition runs_sample :: "('c, 's) interpreter \<Rightarrow> 'c \<Rightarrow> ('c, 's) space \<Rightarrow> bool" where
  "runs_sample h c sp \<longleftrightarrow>
     (\<forall>lcl. dom lcl = {''num'', ''i''} \<longrightarrow> exec_in h c lcl sp = sample_run h lcl sp)"

subsection \<open>A small interpreter for concrete runs\<close>

text \<open>
  Code objects are strings. \<^verbatim>\<open>bench\<close> runs the benchmark's source; \<^verbatim>\<open>rebind\<close> stands
  for \<^verbatim>\<open>global CODE; CODE = other\<close>, \<^verbatim>\<open>shadow\<close> for \<^verbatim>\<open>global range; range = str\<close>;
  every other code object does nothing. The only other call it answers is \<^verbatim>\<open>str(2)\<close>.
\<close>

definition toy_base :: "(string, unit) interpreter" where
  "toy_base =
     \<lparr>exec_in = (\<lambda>c lcl sp. (Inr (), sp)),
      call_other = (\<lambda>f args lcl sp.
         if f = VBuiltin ''str'' \<and> args = [VInt 2] then (Inr (VStr ''2''), sp)
         else (Inl (ExecError ''TypeError''), sp)),
      attr_other = (\<lambda>v a sp. Inl (ExecError ''AttributeError'')),
      import_other = (\<lambda>m sp. (Inl (ExecError ''ModuleNotFoundError''), sp))\<rparr>"

definition toy_interpreter :: "(string, unit) interpreter" where
  "toy_interpreter =
     toy_base\<lparr>exec_in := (\<lambda>c lcl sp.
        if c = ''bench'' then sample_run toy_base lcl sp
        else if c = ''rebind'' then (Inr (), sp\<lparr>globals := (globals sp)(''CODE'' \<mapsto> VCode ''other'')\<rparr>)
        else if c = ''shadow'' then (Inr (), sp\<lparr>globals := (globals sp)(''range'' \<mapsto> VBuiltin ''str'')\<rparr>)
        else (Inr (), sp))\<rparr>"

definition toy_space :: "string \<Rightarrow> (string, unit) space" where
  "toy_space c =
     \<lparr>globals = module_globals Map.empty False c,
      builtins = [''range'' \<mapsto> VBuiltin ''range'', ''exec'' \<mapsto> VBuiltin ''exec'',
                  ''len'' \<mapsto> VBuiltin ''len'', ''str'' \<mapsto> VBuiltin ''str''],
      modules = [''sys'' \<mapsto> [''__name__'' \<mapsto> VStr ''sys'']],
      rest = ()\<rparr>"

definition toy_world :: "string \<Rightarrow> (string, unit) world" where
  "toy_world c = \<lparr>names = toy_space c, trace = []\<rparr>"

section \<open>Properties\<close>

subsection \<open>Shared facts about the loop\<close>

lemma length_range_py: "length (range_py num) = nat num"
  by (simp add: range_py_def)

lemma range_py_nonpos: "num \<le> 0 \<Longrightarrow> range_py num = []"
  by (simp add: range_py_def)

lemma exec_CODE_ok:
  "never_raises h (CODE w) \<Longrightarrow>
   exec_CODE h w =
     (Inr (), w\<lparr>executed := executed w @ [CODE w], interp := run_once h (CODE w) (interp w)\<rparr>)"
  by (auto simp: exec_CODE_def never_raises_def run_once_def Let_def split: prod.splits
      dest: spec [where x = "interp w"])

lemma for_exec_ok:
  "never_raises h (CODE w) \<Longrightarrow>
   for_exec h is w =
     (Inr (), w\<lparr>executed := executed w @ replicate (length is) (CODE w),
                interp := (run_once h (CODE w) ^^ length is) (interp w)\<rparr>)"
proof (induction "is" arbitrary: w)
  case Nil
  show ?case by simp
next
  case (Cons i "is")
  let ?w' = "w\<lparr>executed := executed w @ [CODE w], interp := run_once h (CODE w) (interp w)\<rparr>"
  from Cons.prems have step: "exec_CODE h w = (Inr (), ?w')"
    by (rule exec_CODE_ok)
  from Cons.prems have "never_raises h (CODE ?w')"
    by simp
  from Cons.IH [OF this] step show ?case
    by (simp add: funpow_swap1)
qed

lemma measure_py_ok:
  "never_raises h (CODE w) \<Longrightarrow>
   measure_py h num w =
     (Inr (), w\<lparr>executed := executed w @ replicate (nat num) (CODE w),
                interp := (run_once h (CODE w) ^^ nat num) (interp w)\<rparr>)"
  by (simp add: measure_py_def for_exec_ok length_range_py)

lemma measure_py_empty: "num \<le> 0 \<Longrightarrow> measure_py h num w = (Inr (), w)"
  by (simp add: measure_py_def range_py_nonpos)

lemma toy_never_raises: "src \<noteq> ''raise'' \<Longrightarrow> never_raises (toy_host name) (n, src)"
  by (simp add: never_raises_def toy_host_def)

lemma toy_run_once: "src \<noteq> ''raise'' \<Longrightarrow> run_once (toy_host name) (n, src) k = Suc k"
  by (simp add: run_once_def toy_host_def)

lemma load_CODE:
  "load h out s0 = Inr w \<Longrightarrow>
   get_code h ''bench.py'' bench_source out = (Inr (CODE w), stdout w) \<and> executed w = []"
  by (auto simp: load_def split: prod.splits sum.splits)

text \<open>
  Loading the module and then measuring: when the host compiles the benchmark's source
  and never raises on the resulting code object, five iterations complete normally.
\<close>

lemma load_then_measure:
  "load h out s0 = Inr w \<Longrightarrow> never_raises h (CODE w) \<Longrightarrow>
   fst (measure_py h 5 w) = Inr () \<and> length (executed (snd (measure_py h 5 w))) = 5"
  by (auto simp: measure_py_ok load_def split: prod.splits sum.splits)

subsection \<open>Shared facts about the loop in the module's namespaces\<close>

text \<open>
  In a ready space, the benchmark's code finds the loaded module \<^verbatim>\<open>sys\<close>, binds it
  locally, finds the builtin \<^verbatim>\<open>len\<close> and applies it to a string: it returns normally
  and leaves the space as it was.
\<close>

lemma sample_run_ready:
  assumes "ready c sp" and "lcl ''len'' = None"
  shows "sample_run h lcl sp = (Inr (), sp)"
proof -
  from assms(1) obtain d where d: "modules sp ''sys'' = Some d"
    by (auto simp: ready_def split: option.splits)
  with assms(1) obtain s where s: "d ''__name__'' = Some (VStr s)"
    by (auto simp: ready_def split: option.splits val.splits)
  from assms(1) have len: "globals sp ''len'' = None" "builtins sp ''len'' = Some (VBuiltin ''len'')"
    by (simp_all add: ready_def)
  have "import_name h ''sys'' sp = (Inr (VModule ''sys''), sp)"
    using d by (simp add: import_name_def)
  moreover have "load_name ''len'' (lcl(''sys'' \<mapsto> VModule ''sys'')) sp = Inr (VBuiltin ''len'')"
    using len assms(2) by (simp add: load_name_def load_global_def)
  moreover have "load_name ''sys'' (lcl(''sys'' \<mapsto> VModule ''sys'')) sp = Inr (VModule ''sys'')"
    by (simp add: load_name_def)
  moreover have "load_attr h (VModule ''sys'') ''__name__'' sp = Inr (VStr s)"
    using d s by (simp add: load_attr_def)
  moreover have "call_value h (VBuiltin ''len'') [VStr s] (lcl(''sys'' \<mapsto> VModule ''sys'')) sp =
      (Inr (VInt (int (length s))), sp)"
    by (simp add: call_value_def)
  ultimately show ?thesis
    by (simp add: sample_run_def)
qed

lemma frame_no_len: "dom lcl = {''num'', ''i''} \<Longrightarrow> lcl ''len'' = None"
proof -
  assume "dom lcl = {''num'', ''i''}"
  then have "''len'' \<notin> dom lcl"
    by simp
  then show ?thesis
    by (simp add: domIff)
qed

lemma exec_CODE_in_ready:
  assumes "ready c (names w)" and "runs_sample h c (names w)" and "dom lcl = {''num'', ''i''}"
  shows "exec_CODE_in h lcl w = (Inr (), w\<lparr>trace := trace w @ [c]\<rparr>)"
proof -
  from assms(1) have ex: "load_global ''exec'' (names w) = Inr (VBuiltin ''exec'')"
    and co: "load_global ''CODE'' (names w) = Inr (VCode c)"
    by (simp_all add: ready_def load_global_def)
  from assms(2,3) have "exec_in h c lcl (names w) = sample_run h lcl (names w)"
    by (simp add: runs_sample_def)
  with assms(1,3) have "exec_in h c lcl (names w) = (Inr (), names w)"
    by (simp add: sample_run_ready frame_no_len)
  then have "call_value h (VBuiltin ''exec'') [VCode c] lcl (names w) = (Inr VNone, names w)"
    by (simp add: call_value_def)
  with ex co show ?thesis
    by (simp add: exec_CODE_in_def)
qed

lemma for_in_ready:
  "ready c (names w) \<Longrightarrow> runs_sample h c (names w) \<Longrightarrow>
   for_in h num items w = (Inr (), w\<lparr>trace := trace w @ replicate (length items) c\<rparr>)"
proof (induction items arbitrary: w)
  case Nil
  show ?case by simp
next
  case (Cons i items)
  let ?w' = "w\<lparr>trace := trace w @ [c]\<rparr>"
  have "dom [''num'' \<mapsto> VInt num, ''i'' \<mapsto> i] = {''num'', ''i''}"
    by auto
  with Cons.prems have step:
    "exec_CODE_in h [''num'' \<mapsto> VInt num, ''i'' \<mapsto> i] w = (Inr (), ?w')"
    by (rule exec_CODE_in_ready)
  from Cons.prems have "ready c (names ?w')" "runs_sample h c (names ?w')"
    by simp_all
  then have "for_in h num items ?w' =
      (Inr (), ?w'\<lparr>trace := trace ?w' @ replicate (length items) c\<rparr>)"
    by (rule Cons.IH)
  with step show ?case
    by (simp add: replicate_app_Cons_same)
qed

lemma call_range: "call_value h (VBuiltin ''range'') [VInt n] lcl sp = (Inr (VRange n), sp)"
  by (simp add: call_value_def)

lemma iter_range: "iter_items (VRange n) = Inr (map VInt [0..n - 1])"
  by (simp add: iter_items_def)

lemma measure_in_ready:
  assumes "ready c (names w)" and "runs_sample h c (names w)"
  shows "measure_in h num w = (Inr (), w\<lparr>trace := trace w @ replicate (nat num) c\<rparr>)"
proof -
  from assms(1) have "load_global ''range'' (names w) = Inr (VBuiltin ''range'')"
    by (simp add: ready_def load_global_def)
  then have "measure_in h num w = for_in h num (map VInt [0..num - 1]) w"
    unfolding measure_in_def by (simp only: call_range iter_range sum.case prod.case) simp
  also have "\<dots> = (Inr (), w\<lparr>trace := trace w @ replicate (nat num) c\<rparr>)"
    using for_in_ready [OF assms, of num "map VInt [0..num - 1]"] by simp
  finally show ?thesis .
qed

lemma benchmark_in_ready:
  assumes "ready c (names w)" and "runs_sample h c (names w)"
  shows "benchmark_in h arg w =
    (Inr (), w\<lparr>trace := trace w @ replicate (nat (case arg of None \<Rightarrow> 5 | Some n \<Rightarrow> n)) c\<rparr>)"
proof -
  from assms(1) have "load_global ''measure'' (names w) = Inr (VFunction ''measure'')"
    by (simp add: ready_def load_global_def)
  then show ?thesis
    unfolding benchmark_in_def by (simp only: Let_def sum.case simp_thms if_True measure_in_ready [OF assms])
qed

lemma module_globals_ready:
  assumes "globals sp = module_globals g0 graal c"
    and "g0 ''range'' = None" "g0 ''exec'' = None" "g0 ''len'' = None"
    and "builtins sp ''range'' = Some (VBuiltin ''range'')"
    and "builtins sp ''exec'' = Some (VBuiltin ''exec'')"
    and "builtins sp ''len'' = Some (VBuiltin ''len'')"
    and "modules sp ''sys'' = Some d" "d ''__name__'' = Some (VStr s)"
  shows "ready c sp"
  using assms by (simp add: ready_def module_globals_def)

lemma toy_ready: "ready c (toy_space c)"
  by (simp add: ready_def toy_space_def module_globals_def)

lemma toy_runs_sample: "runs_sample toy_interpreter ''bench'' (toy_space ''bench'')"
proof -
  have "sample_run toy_interpreter lcl (toy_space ''bench'') = sample_run toy_base lcl (toy_space ''bench'')"
    if "dom lcl = {''num'', ''i''}" for lcl
    using that by (simp add: sample_run_ready [OF toy_ready] frame_no_len)
  then show ?thesis
    by (simp add: runs_sample_def toy_interpreter_def)
qed

text \<open>
  Code objects that bind the module's names are runs of this model too: after
  \<^verbatim>\<open>rebind\<close> the loop executes another code object, and after \<^verbatim>\<open>shadow\<close> a second
  call of \<^verbatim>\<open>measure(2)\<close> iterates over the one character of \<^verbatim>\<open>str(2)\<close>.
\<close>

lemma rebinding_CODE_runs:
  "fst (measure_in toy_interpreter 3 (toy_world ''rebind'')) = Inr () \<and>
   trace (snd (measure_in toy_interpreter 3 (toy_world ''rebind''))) = [''rebind'', ''other'', ''other''] \<and>
   globals (names (snd (measure_in toy_interpreter 3 (toy_world ''rebind'')))) ''CODE'' =
     Some (VCode ''other'')"
  by code_simp

lemma shadowing_range_runs:
  "trace (snd (measure_in toy_interpreter 2 (toy_world ''shadow''))) = [''shadow'', ''shadow''] \<and>
   trace (snd (measure_in toy_interpreter 2 (snd (measure_in toy_interpreter 2 (toy_world ''shadow''))))) =
     [''shadow'', ''shadow'', ''shadow'']"
  by code_simp

text \<open>
  On the benchmark's code object the two models of the loop agree: the same result and
  the same executions logged.
\<close>

lemma loops_agree:
  assumes "ready c (names w)" and "runs_sample h c (names w)"
    and "never_raises ha c" and "CODE wa = c"
  shows "fst (measure_in h num w) = fst (measure_py ha num wa) \<and>
    drop (length (trace w)) (trace (snd (measure_in h num w))) =
    drop (length (executed wa)) (executed (snd (measure_py ha num wa)))"
  using assms by (simp add: measure_in_ready [OF assms(1,2)] measure_py_ok)

subsection \<open>Runtime detection\<close>

text \<open>
  C3. Runtime detection is true exactly when the runtime's identifier string equals
  \<^verbatim>\<open>graalpython\<close>. It is a total function of the host's identifier: it reads nothing
  else and cannot fail.
\<close>

theorem IS_GRAAL_iff: "IS_GRAAL h \<longleftrightarrow> implementation_name h = ''graalpython''"
  by (simp add: IS_GRAAL_def)

lemma IS_GRAAL_toy: "IS_GRAAL (toy_host ''graalpython'') \<and> \<not> IS_GRAAL (toy_host ''cpython'')"
  by (simp add: IS_GRAAL_def toy_host_def)

subsection \<open>Code acquisition\<close>

text \<open>
  C4. On the fallback path, when the source does not compile, \<open>get_code\<close> raises the
  compile error and standard output is what it was before the call: nothing of the
  disassembly has been written.
\<close>

theorem get_code_fallback_invalid:
  "\<not> IS_GRAAL h \<Longrightarrow> compile h s n ''exec'' = Inl CompileError \<Longrightarrow>
   get_code h n s out = (Inl CompileError, out)"
  by (simp add: get_code_def)

theorem get_code_fallback_invalid_witness:
  "get_code (toy_host ''cpython'') ''bench.py'' ''def :'' [''earlier output''] =
     (Inl CompileError, [''earlier output''])"
proof -
  have path: "\<not> IS_GRAAL (toy_host ''cpython'')"
    by (simp add: IS_GRAAL_def toy_host_def)
  have bad: "compile (toy_host ''cpython'') ''def :'' ''bench.py'' ''exec'' = Inl CompileError"
    by (simp add: toy_host_def)
  from get_code_fallback_invalid [OF path bad] show ?thesis .
qed



text \<open>
  C6. On GraalPython, \<open>get_code\<close> is \<^verbatim>\<open>marshal.loads\<close> applied to the blob that
  \<^verbatim>\<open>compile_cpyc\<close> returned for the name and the source, and writes nothing. In
  particular, when \<^verbatim>\<open>marshal.loads\<close> rejects the blob with a deserialization error,
  that error is what \<open>get_code\<close> raises.
\<close>

theorem get_code_graal:
  "IS_GRAAL h \<Longrightarrow> compile_cpyc h n s = Inr b \<Longrightarrow>
   get_code h n s out = (marshal_loads h b, out) \<and>
   (marshal_loads h b = Inl DeserializationError \<longrightarrow>
      get_code h n s out = (Inl DeserializationError, out))"
  by (cases "marshal_loads h b") (simp_all add: get_code_def)

theorem get_code_graal_witness:
  "get_code (toy_host ''graalpython'') ''bench.py'' bench_source [] =
     (Inr (''<blob>'', bench_source), []) \<and>
   get_code (toy_host ''graalpython'') ''bench.py'' [] [] = (Inl DeserializationError, [])"
proof -
  have path: "IS_GRAAL (toy_host ''graalpython'')"
    by (simp add: IS_GRAAL_def toy_host_def)
  have blob: "compile_cpyc (toy_host ''graalpython'') ''bench.py'' bench_source = Inr bench_source"
    by (simp add: toy_host_def bench_source_def)
  have empty: "compile_cpyc (toy_host ''graalpython'') ''bench.py'' [] = Inr []"
    by (simp add: toy_host_def)
  have rejected: "marshal_loads (toy_host ''graalpython'') [] = Inl DeserializationError"
    by (simp add: toy_host_def)
  from get_code_graal [OF path blob, of "[]"]
  have "get_code (toy_host ''graalpython'') ''bench.py'' bench_source [] =
      (Inr (''<blob>'', bench_source), [])"
    by (simp add: toy_host_def bench_source_def)
  moreover from get_code_graal [OF path empty, of "[]"] rejected
  have "get_code (toy_host ''graalpython'') ''bench.py'' [] [] = (Inl DeserializationError, [])"
    by simp
  ultimately show ?thesis by simp
qed

subsection \<open>The measurement loop\<close>

text \<open>
  C1. For a non-negative \<open>num\<close>, when the host does not raise on the stored code,
  \<open>measure\<close> returns normally, with no value, after exactly \<open>num\<close> executions of the
  stored code, one after the other: the log grows by \<open>num\<close> copies of \<open>CODE\<close> and the
  interpreter's state is the \<open>num\<close>-fold iterate of one run. For \<open>num = 0\<close> this holds
  whatever the host does: nothing is executed and nothing is raised.
\<close>

theorem measure_executes_num_times:
  "0 \<le> num \<Longrightarrow> never_raises h (CODE w) \<or> num = 0 \<Longrightarrow>
   measure_py h num w =
     (Inr (), w\<lparr>executed := executed w @ replicate (nat num) (CODE w),
                interp := (run_once h (CODE w) ^^ nat num) (interp w)\<rparr>)"
proof (cases "num = 0")
  case True
  then show ?thesis
    by (simp add: measure_py_empty)
next
  case False
  assume "never_raises h (CODE w) \<or> num = 0"
  with False have "never_raises h (CODE w)"
    by simp
  then show ?thesis
    by (rule measure_py_ok)
qed

theorem measure_executes_num_times_witness:
  "measure_py (toy_host ''cpython'') 3 (toy_state ''pass'') =
     (Inr (), \<lparr>CODE = (''bench.py'', ''pass''), stdout = [],
               executed = [(''bench.py'', ''pass''), (''bench.py'', ''pass''), (''bench.py'', ''pass'')],
               interp = 3\<rparr>) \<and>
   measure_py (toy_host ''cpython'') 0 (toy_state ''raise'') = (Inr (), toy_state ''raise'')"
proof -
  have quiet: "never_raises (toy_host ''cpython'') (CODE (toy_state ''pass'')) \<or> (3::int) = 0"
    by (simp add: toy_state_def toy_never_raises)
  have "measure_py (toy_host ''cpython'') 3 (toy_state ''pass'') =
      (Inr (), \<lparr>CODE = (''bench.py'', ''pass''), stdout = [],
               executed = [(''bench.py'', ''pass''), (''bench.py'', ''pass''), (''bench.py'', ''pass'')],
               interp = 3\<rparr>)"
    using measure_executes_num_times [of 3 "toy_host ''cpython''" "toy_state ''pass''", OF _ quiet]
    by (simp add: toy_state_def toy_run_once eval_nat_numeral)
  moreover have "measure_py (toy_host ''cpython'') 0 (toy_state ''raise'') = (Inr (), toy_state ''raise'')"
    using measure_executes_num_times [of 0 "toy_host ''cpython''" "toy_state ''raise''"]
    by simp
  ultimately show ?thesis by simp
qed

text \<open>
  C10. For a negative \<open>num\<close> the range is empty: \<open>measure\<close> returns normally and the
  state, the execution log included, is untouched, whatever the host would do with the
  code.
\<close>

theorem measure_negative: "num < 0 \<Longrightarrow> measure_py h num w = (Inr (), w)"
  by (simp add: measure_py_empty)

theorem measure_negative_witness:
  "measure_py (toy_host ''cpython'') (- 3) (toy_state ''raise'') = (Inr (), toy_state ''raise'') \<and>
   executed (snd (measure_py (toy_host ''cpython'') (- 3) (toy_state ''raise''))) = []"
  using measure_negative [of "- 3" "toy_host ''cpython''" "toy_state ''raise''"]
  by (simp add: toy_state_def)

text \<open>
  C2. Called without an argument, \<open>__benchmark__\<close> is \<open>measure 5\<close>; called with \<open>num\<close>
  it is \<open>measure num\<close>: the same result and the same final state, hence the same
  executions. When the host does not raise on the stored code, the call without
  argument executes it exactly five times.
\<close>

theorem benchmark_delegates:
  "benchmark h None w = measure_py h 5 w \<and>
   benchmark h (Some num) w = measure_py h num w \<and>
   (never_raises h (CODE w) \<longrightarrow>
      benchmark h None w =
        (Inr (), w\<lparr>executed := executed w @ replicate 5 (CODE w),
                   interp := (run_once h (CODE w) ^^ 5) (interp w)\<rparr>))"
  by (simp add: benchmark_def measure_py_ok)

theorem benchmark_delegates_witness:
  "executed (snd (benchmark (toy_host ''graalpython'') None (toy_state ''pass''))) =
     replicate 5 (''bench.py'', ''pass'') \<and>
   fst (benchmark (toy_host ''graalpython'') None (toy_state ''pass'')) = Inr () \<and>
   benchmark (toy_host ''graalpython'') (Some 2) (toy_state ''pass'') =
     measure_py (toy_host ''graalpython'') 2 (toy_state ''pass'')"
proof -
  have quiet: "never_raises (toy_host ''graalpython'') (CODE (toy_state ''pass''))"
    by (simp add: toy_state_def toy_never_raises)
  note facts = benchmark_delegates [of "toy_host ''graalpython''" "toy_state ''pass''" 2]
  from facts quiet have five:
    "benchmark (toy_host ''graalpython'') None (toy_state ''pass'') =
       (Inr (), (toy_state ''pass'')
          \<lparr>executed := executed (toy_state ''pass'') @ replicate 5 (CODE (toy_state ''pass'')),
           interp := (run_once (toy_host ''graalpython'') (CODE (toy_state ''pass'')) ^^ 5)
                       (interp (toy_state ''pass''))\<rparr>)"
    by blast
  from facts have two:
    "benchmark (toy_host ''graalpython'') (Some 2) (toy_state ''pass'') =
       measure_py (toy_host ''graalpython'') 2 (toy_state ''pass'')"
    by blast
  from five have "executed (snd (benchmark (toy_host ''graalpython'') None (toy_state ''pass''))) =
      replicate 5 (''bench.py'', ''pass'')"
    by (simp add: toy_state_def)
  moreover from five have "fst (benchmark (toy_host ''graalpython'') None (toy_state ''pass'')) = Inr ()"
    by simp
  ultimately show ?thesis
    using two by blast
qed

subsection \<open>Repeated calls and the stored code object\<close>

text \<open>
  C8. In the loaded module, with the stored code object run as the benchmark's source
  prescribes, two calls of \<open>measure\<close> with the same \<open>num\<close>, the second starting where
  the first ended, both return normally and each passes the stored code object to
  \<^verbatim>\<open>exec\<close> exactly \<open>nat num\<close> times. The first call leaves the globals, the builtins,
  the loaded modules and the rest of the interpreter as it found them, so nothing it
  did reaches the second.
\<close>

theorem measure_twice:
  assumes "ready c (names w)" and "runs_sample h c (names w)"
  shows "(let (r1, w1) = measure_in h num w;
              (r2, w2) = measure_in h num w1
          in r1 = Inr () \<and> r2 = Inr () \<and>
             trace w1 = trace w @ replicate (nat num) c \<and>
             trace w2 = trace w1 @ replicate (nat num) c \<and>
             names w1 = names w \<and> names w2 = names w)"
proof -
  let ?w1 = "w\<lparr>trace := trace w @ replicate (nat num) c\<rparr>"
  from assms have first: "measure_in h num w = (Inr (), ?w1)"
    by (rule measure_in_ready)
  from assms have "ready c (names ?w1)" "runs_sample h c (names ?w1)"
    by simp_all
  then have "measure_in h num ?w1 = (Inr (), ?w1\<lparr>trace := trace ?w1 @ replicate (nat num) c\<rparr>)"
    by (rule measure_in_ready)
  with first show ?thesis
    by simp
qed

theorem measure_twice_witness:
  "(let (r1, w1) = measure_in toy_interpreter 2 (toy_world ''bench'');
        (r2, w2) = measure_in toy_interpreter 2 w1
    in r1 = Inr () \<and> r2 = Inr () \<and>
       trace w1 = [''bench'', ''bench''] \<and>
       trace w2 = [''bench'', ''bench'', ''bench'', ''bench''] \<and>
       names w2 = toy_space ''bench'')"
proof -
  have loaded: "ready ''bench'' (names (toy_world ''bench''))"
    by (simp add: toy_world_def toy_ready)
  have sample: "runs_sample toy_interpreter ''bench'' (names (toy_world ''bench''))"
    by (simp add: toy_world_def toy_runs_sample)
  from measure_twice [OF loaded sample, of 2] show ?thesis
    by (simp add: toy_world_def eval_nat_numeral split: prod.splits)
qed

text \<open>
  C9. In the loaded module, with the stored code object run as the benchmark's source
  prescribes, \<open>measure\<close> and \<open>__benchmark__\<close> return with \<^verbatim>\<open>CODE\<close> still bound to the
  code object stored at module load, whatever the argument, and every execution they
  perform is an execution of that code object.
\<close>

theorem CODE_unchanged:
  assumes "ready c (names w)" and "runs_sample h c (names w)"
  shows "globals (names (snd (measure_in h num w))) ''CODE'' = Some (VCode c) \<and>
         globals (names (snd (benchmark_in h arg w))) ''CODE'' = Some (VCode c) \<and>
         trace (snd (measure_in h num w)) = trace w @ replicate (nat num) c \<and>
         (\<exists>k. trace (snd (benchmark_in h arg w)) = trace w @ replicate k c)"
proof -
  from assms(1) have bound: "globals (names w) ''CODE'' = Some (VCode c)"
    by (simp add: ready_def)
  from assms have m: "measure_in h num w = (Inr (), w\<lparr>trace := trace w @ replicate (nat num) c\<rparr>)"
    by (rule measure_in_ready)
  from assms have b: "benchmark_in h arg w =
      (Inr (), w\<lparr>trace := trace w @ replicate (nat (case arg of None \<Rightarrow> 5 | Some n \<Rightarrow> n)) c\<rparr>)"
    by (rule benchmark_in_ready)
  from b have "\<exists>k. trace (snd (benchmark_in h arg w)) = trace w @ replicate k c"
    by (intro exI [of _ "nat (case arg of None \<Rightarrow> 5 | Some n \<Rightarrow> n)"]) simp
  with bound m b show ?thesis
    by simp
qed

theorem CODE_unchanged_witness:
  "globals (names (snd (measure_in toy_interpreter 3 (toy_world ''bench'')))) ''CODE'' =
     Some (VCode ''bench'') \<and>
   globals (names (snd (benchmark_in toy_interpreter None (toy_world ''bench'')))) ''CODE'' =
     Some (VCode ''bench'') \<and>
   trace (snd (measure_in toy_interpreter 3 (toy_world ''bench''))) = [''bench'', ''bench'', ''bench'']"
proof -
  have loaded: "ready ''bench'' (names (toy_world ''bench''))"
    by (simp add: toy_world_def toy_ready)
  have sample: "runs_sample toy_interpreter ''bench'' (names (toy_world ''bench''))"
    by (simp add: toy_world_def toy_runs_sample)
  from CODE_unchanged [OF loaded sample, of 3 None] show ?thesis
    by (simp add: toy_world_def eval_nat_numeral)
qed

end
